theory Spec2Isabelle
  imports Complex_Main "HOL-Library.Sublist"
begin

section \<open>The generated data of \<^verbatim>\<open>implementors/core/ops/trait.Place.js\<close>\<close>

text \<open>
  Line 2 of the file assigns an array literal of five string literals to
  \<^verbatim>\<open>implementors["biscuit"]\<close>. The string literals are double-quoted in the file and hold
  no escape sequence, so the value of each is its text between the quotes, character for
  character. They are kept here in the order of the file. The comma after the fifth
  literal is a trailing comma of the array literal and adds no element.
\<close>

definition impl_IntermediateBox :: string where
  \<open>impl_IntermediateBox =
    ''impl&lt;T&gt; <a class='trait' href='https://doc.rust-lang.org/nightly/core/ops/trait.Place.html' title='core::ops::Place'>Place</a>&lt;T&gt; for <a class='struct' href='https://doc.rust-lang.org/nightly/alloc/boxed/struct.IntermediateBox.html' title='alloc::boxed::IntermediateBox'>IntermediateBox</a>&lt;T&gt;''\<close>

definition impl_BinaryHeapPlace :: string where
  \<open>impl_BinaryHeapPlace =
    ''impl&lt;'a, T&gt; <a class='trait' href='https://doc.rust-lang.org/nightly/core/ops/trait.Place.html' title='core::ops::Place'>Place</a>&lt;T&gt; for <a class='struct' href='https://doc.rust-lang.org/nightly/collections/binary_heap/struct.BinaryHeapPlace.html' title='collections::binary_heap::BinaryHeapPlace'>BinaryHeapPlace</a>&lt;'a, T&gt; <span class='where fmt-newline'>where T: <a class='trait' href='https://doc.rust-lang.org/nightly/core/clone/trait.Clone.html' title='core::clone::Clone'>Clone</a> + <a class='trait' href='https://doc.rust-lang.org/nightly/core/cmp/trait.Ord.html' title='core::cmp::Ord'>Ord</a></span>''\<close>

definition impl_FrontPlace :: string where
  \<open>impl_FrontPlace =
    ''impl&lt;'a, T&gt; <a class='trait' href='https://doc.rust-lang.org/nightly/core/ops/trait.Place.html' title='core::ops::Place'>Place</a>&lt;T&gt; for <a class='struct' href='https://doc.rust-lang.org/nightly/collections/linked_list/struct.FrontPlace.html' title='collections::linked_list::FrontPlace'>FrontPlace</a>&lt;'a, T&gt;''\<close>

definition impl_BackPlace :: string where
  \<open>impl_BackPlace =
    ''impl&lt;'a, T&gt; <a class='trait' href='https://doc.rust-lang.org/nightly/core/ops/trait.Place.html' title='core::ops::Place'>Place</a>&lt;T&gt; for <a class='struct' href='https://doc.rust-lang.org/nightly/collections/linked_list/struct.BackPlace.html' title='collections::linked_list::BackPlace'>BackPlace</a>&lt;'a, T&gt;''\<close>

definition impl_PlaceBack :: string where
  \<open>impl_PlaceBack =
    ''impl&lt;'a, T&gt; <a class='trait' href='https://doc.rust-lang.org/nightly/core/ops/trait.Place.html' title='core::ops::Place'>Place</a>&lt;T&gt; for <a class='struct' href='https://doc.rust-lang.org/nightly/collections/vec/struct.PlaceBack.html' title='collections::vec::PlaceBack'>PlaceBack</a>&lt;'a, T&gt;''\<close>

definition biscuit :: "string list" where
  "biscuit =
    [impl_IntermediateBox, impl_BinaryHeapPlace, impl_FrontPlace, impl_BackPlace, impl_PlaceBack]"


section \<open>JavaScript values\<close>

text \<open>
  The script reads one property of the global object and tests it with \<^verbatim>\<open>if\<close>, so the
  model needs every kind of value that property can hold. Numbers keep only what the
  truthiness test looks at. Objects and arrays are modelled by value: an object is the list
  of its own string-keyed properties in insertion order, an array the list of its elements.
  A function object is named by a number; what calling it does is given by the host
  (see below), since the body of the hook is not part of this repository.
\<close>

datatype jsnum = NaN | PosInf | NegInf | NegZero | Finite rat

datatype jsval =
    Undefined
  | Null
  | Bool bool
  | Num jsnum
  | BigInt int
  | Str string
  | Sym nat
  | Arr "jsval list"
  | Obj "(string \<times> jsval) list"
  | Fun nat

text \<open>The conversion applied by \<^verbatim>\<open>if (...)\<close> to its condition.\<close>

fun ToBoolean :: "jsval \<Rightarrow> bool" where
  "ToBoolean Undefined = False"
| "ToBoolean Null = False"
| "ToBoolean (Bool b) = b"
| "ToBoolean (Num n) = (n \<noteq> NaN \<and> n \<noteq> NegZero \<and> n \<noteq> Finite 0)"
| "ToBoolean (BigInt i) = (i \<noteq> 0)"
| "ToBoolean (Str s) = (s \<noteq> [])"
| "ToBoolean (Sym y) = True"
| "ToBoolean (Arr xs) = True"
| "ToBoolean (Obj ps) = True"
| "ToBoolean (Fun f) = True"

fun IsCallable :: "jsval \<Rightarrow> bool" where
  "IsCallable (Fun f) = True"
| "IsCallable v = False"

text \<open>
  Assignment \<^verbatim>\<open>o[k] = v\<close> on the property list of an ordinary object: an existing key
  keeps its place and gets the new value, a new key is appended.
\<close>

fun set_prop :: "string \<Rightarrow> jsval \<Rightarrow> (string \<times> jsval) list \<Rightarrow> (string \<times> jsval) list" where
  "set_prop k v [] = [(k, v)]"
| "set_prop k v ((k', v') # ps) =
    (if k = k' then (k, v) # ps else (k', v') # set_prop k v ps)"

text \<open>
  Lines 1 and 2: \<^verbatim>\<open>var implementors = {};\<close> creates an object with no property (the empty
  property list) and \<^verbatim>\<open>implementors["biscuit"] = [...]\<close> assigns the array of the five
  strings to its key \<^verbatim>\<open>biscuit\<close>.
\<close>

definition implementors :: jsval where
  "implementors = Obj (set_prop ''biscuit'' (Arr (map Str biscuit)) [])"


section \<open>The global object and the hook\<close>

text \<open>
  \<^verbatim>\<open>window\<close> is modelled as a partial map from property names to values: its
  properties are taken to be plain writable data properties (no getter or setter runs when
  the script reads or writes one). Reading a property that is absent gives \<^verbatim>\<open>undefined\<close>.
\<close>

type_synonym window = "string \<rightharpoonup> jsval"

definition Get :: "window \<Rightarrow> string \<Rightarrow> jsval" where
  "Get w p = (case w p of None \<Rightarrow> Undefined | Some v \<Rightarrow> v)"

definition Put :: "window \<Rightarrow> string \<Rightarrow> jsval \<Rightarrow> window" where
  "Put w p v = w(p \<mapsto> v)"

text \<open>
  Calling a function object runs code that lives outside this file. The host gives its
  behaviour: from the function, the argument list and the global object at the time of
  the call (which is also the \<^verbatim>\<open>this\<close> of the call) to a normal return, a thrown value,
  or no return at all.
\<close>

datatype call_result =
    Returns jsval "string \<rightharpoonup> jsval"
  | Throws jsval "string \<rightharpoonup> jsval"
  | Diverges

type_synonym host = "nat \<Rightarrow> jsval list \<Rightarrow> window \<Rightarrow> call_result"


section \<open>The script\<close>

text \<open>
  A run of the script yields what the script itself did, in order (calls it made and
  properties of \<^verbatim>\<open>window\<close> it wrote), and how it ended: normally, with an error raised
  and not caught (the script has no \<^verbatim>\<open>try\<close>), or not at all when the function it called
  never returns. The last two carry the global object as left at that point.
\<close>

text \<open>
  \<open>TypeError\<close> is the error the call expression itself raises for a value that is not a
  function. \<open>Thrown x\<close> is a value \<open>x\<close> thrown by the code that was called, whatever it is
  (an error object of that code included), passing through the script.
\<close>

datatype js_error = TypeError | Thrown jsval

datatype outcome =
    Completed "string \<rightharpoonup> jsval"
  | Raised js_error "string \<rightharpoonup> jsval"
  | NoReturn

datatype event = Invoke nat "jsval list" | Store string jsval

fun finish :: "call_result \<Rightarrow> outcome" where
  "finish (Returns v w') = Completed w'"
| "finish (Throws e w') = Raised (Thrown e) w'"
| "finish Diverges = NoReturn"

text \<open>
  The call expression \<^verbatim>\<open>window.register_implementors(implementors)\<close>: a value that is not
  callable raises \<^verbatim>\<open>TypeError\<close> and nothing is called; the value the call returns is
  dropped, since the call is an expression statement.
\<close>

fun Call :: "host \<Rightarrow> jsval \<Rightarrow> jsval list \<Rightarrow> window \<Rightarrow> event list \<times> outcome" where
  "Call h (Fun f) args w = ([Invoke f args], finish (h f args w))"
| "Call h v args w = ([], Raised TypeError w)"

text \<open>Lines 4 to 8, run after lines 1 and 2 have built \<^const>\<open>implementors\<close>.\<close>

definition script :: "host \<Rightarrow> window \<Rightarrow> event list \<times> outcome" where
  "script h w =
    (if ToBoolean (Get w ''register_implementors'')
     then Call h (Get w ''register_implementors'') [implementors] w
     else ([Store ''pending_implementors'' implementors],
           Completed (Put w ''pending_implementors'' implementors)))"

text \<open>
  The same script as a relation, over a host whose functions may answer a call in more
  than one way. It is used to say what determinism of the hook buys.
\<close>

type_synonym host_rel = "nat \<Rightarrow> jsval list \<Rightarrow> window \<Rightarrow> call_result \<Rightarrow> bool"

inductive exec :: "host_rel \<Rightarrow> window \<Rightarrow> event list \<times> outcome \<Rightarrow> bool" where
  exec_store:
    "\<not> ToBoolean (Get w ''register_implementors'') \<Longrightarrow>
     exec H w ([Store ''pending_implementors'' implementors],
               Completed (Put w ''pending_implementors'' implementors))"
| exec_call:
    "ToBoolean (Get w ''register_implementors'') \<Longrightarrow>
     Get w ''register_implementors'' = Fun f \<Longrightarrow>
     H f [implementors] w r \<Longrightarrow>
     exec H w ([Invoke f [implementors]], finish r)"
| exec_not_callable:
    "ToBoolean (Get w ''register_implementors'') \<Longrightarrow>
     \<not> IsCallable (Get w ''register_implementors'') \<Longrightarrow>
     exec H w ([], Raised TypeError w)"

definition graph_of :: "host \<Rightarrow> host_rel" where
  "graph_of h f args w r = (r = h f args w)"

definition functional :: "host_rel \<Rightarrow> bool" where
  "functional H = (\<forall>f args w r r'. H f args w r \<longrightarrow> H f args w r' \<longrightarrow> r = r')"


section \<open>Sample environments\<close>

definition window_without_hook :: window where
  "window_without_hook = Map.empty"

definition window_with_hook :: window where
  "window_with_hook = [''register_implementors'' \<mapsto> Fun 0]"

definition window_with_number :: window where
  "window_with_number = [''register_implementors'' \<mapsto> Num (Finite 1)]"

text \<open>A hook that keeps what it is given, one that throws, and one that never returns.\<close>

definition host_keeping :: host where
  "host_keeping f args w = Returns Undefined (w(''registered'' \<mapsto> Arr args))"

definition host_throwing :: host where
  "host_throwing f args w = Throws (Str ''not ready'') w"

definition host_hanging :: host where
  "host_hanging f args w = Diverges"


section \<open>Shape of the data\<close>

text \<open>
  The observers used to state what the mapping looks like: the own keys of an object in
  order, the value under a key (\<^verbatim>\<open>undefined\<close> when there is none), and the test that a
  value is an array of strings, or an object all of whose values are arrays of strings.
\<close>

fun own_keys :: "jsval \<Rightarrow> string list" where
  "own_keys (Obj ps) = map fst ps"
| "own_keys v = []"

fun get_prop :: "jsval \<Rightarrow> string \<Rightarrow> jsval" where
  "get_prop (Obj ps) k = (case map_of ps k of None \<Rightarrow> Undefined | Some v \<Rightarrow> v)"
| "get_prop v k = Undefined"

fun is_string :: "jsval \<Rightarrow> bool" where
  "is_string (Str s) = True"
| "is_string v = False"

fun is_string_seq :: "jsval \<Rightarrow> bool" where
  "is_string_seq (Arr xs) = list_all is_string xs"
| "is_string_seq v = False"

fun is_mapping :: "jsval \<Rightarrow> bool" where
  "is_mapping (Obj ps) = list_all (\<lambda>kv. is_string_seq (snd kv)) ps"
| "is_mapping v = False"

text \<open>What an event of a run hands over: the arguments of a call, or the value stored.\<close>

fun payload :: "event \<Rightarrow> jsval list" where
  "payload (Invoke f args) = args"
| "payload (Store p v) = [v]"


section \<open>The text of the file\<close>

text \<open>
  The file as a string, line by line; each line but the last ends in a newline character,
  and the last line \<^verbatim>\<open>})()\<close> does not. The five long string literals of line 2 stand
  under their names, between the double quotes the file puts around them.
\<close>

definition source_text :: string where
  \<open>source_text =
    ''(function() {var implementors = {};\<newline>'' @
    ''implementors["biscuit"] = ["'' @ impl_IntermediateBox @ ''","'' @ impl_BinaryHeapPlace @
      ''","'' @ impl_FrontPlace @ ''","'' @ impl_BackPlace @ ''","'' @ impl_PlaceBack @ ''",];\<newline>'' @
    ''\<newline>'' @
    ''            if (window.register_implementors) {\<newline>'' @
    ''                window.register_implementors(implementors);\<newline>'' @
    ''            } else {\<newline>'' @
    ''                window.pending_implementors = implementors;\<newline>'' @
    ''            }\<newline>'' @
    ''        \<newline>'' @
    ''})()''\<close>

definition newlines :: "string \<Rightarrow> nat" where
  "newlines s = length (filter (\<lambda>c. c = CHR 0x0A) s)"

text \<open>Splitting a text at its newline characters; a text with no newline is one line.\<close>

fun split_lines :: "string \<Rightarrow> string list" where
  "split_lines [] = [[]]"
| "split_lines (c # cs) =
    (if c = CHR 0x0A then [] # split_lines cs
     else (case split_lines cs of [] \<Rightarrow> [[c]] | l # ls \<Rightarrow> (c # l) # ls))"


section \<open>Facts about the model\<close>

lemmas impl_defs = impl_IntermediateBox_def impl_BinaryHeapPlace_def impl_FrontPlace_def
  impl_BackPlace_def impl_PlaceBack_def

subsection \<open>Property assignment keeps keys unique\<close>

lemma set_prop_keys:
  "map fst (set_prop k v ps) = (if k \<in> set (map fst ps) then map fst ps else map fst ps @ [k])"
  by (induction ps) force+

lemma set_prop_distinct:
  "distinct (map fst ps) \<Longrightarrow> distinct (map fst (set_prop k v ps))"
  by (simp add: set_prop_keys)

lemma set_prop_lookup: "map_of (set_prop k v ps) k = Some v"
  by (induction ps) auto

subsection \<open>The constructed mapping\<close>

lemma implementors_value:
  "implementors = Obj [(''biscuit'', Arr (map Str biscuit))]"
  by (simp add: implementors_def)

lemma implementors_literal:
  "implementors =
    Obj [(''biscuit'',
          Arr [Str impl_IntermediateBox, Str impl_BinaryHeapPlace, Str impl_FrontPlace,
               Str impl_BackPlace, Str impl_PlaceBack])]"
  by (simp add: implementors_def biscuit_def)

lemma biscuit_nonempty: "biscuit \<noteq> []"
  by (simp add: biscuit_def)

lemma is_string_map_Str: "list_all is_string (map Str xs)"
  by (induction xs) simp_all

lemma implementors_is_mapping: "is_mapping implementors"
  by (simp add: implementors_value is_string_map_Str)

subsection \<open>The three ways a run can go\<close>

lemma IsCallable_iff: "IsCallable v \<longleftrightarrow> (\<exists>f. v = Fun f)"
  by (cases v) simp_all

lemma script_falsy:
  "\<not> ToBoolean (Get w ''register_implementors'') \<Longrightarrow>
   script h w = ([Store ''pending_implementors'' implementors],
                 Completed (Put w ''pending_implementors'' implementors))"
  by (simp add: script_def)

lemma script_callable:
  "Get w ''register_implementors'' = Fun f \<Longrightarrow>
   script h w = ([Invoke f [implementors]], finish (h f [implementors] w))"
  by (simp add: script_def)

lemma script_not_callable:
  "ToBoolean (Get w ''register_implementors'') \<Longrightarrow>
   \<not> IsCallable (Get w ''register_implementors'') \<Longrightarrow>
   script h w = ([], Raised TypeError w)"
  by (cases "Get w ''register_implementors''") (simp_all add: script_def)

lemma trace_cases:
  "fst (script h w) = [] \<or>
   (\<exists>f. Get w ''register_implementors'' = Fun f \<and> fst (script h w) = [Invoke f [implementors]]) \<or>
   (\<not> ToBoolean (Get w ''register_implementors'') \<and>
    fst (script h w) = [Store ''pending_implementors'' implementors])"
  by (cases "Get w ''register_implementors''") (auto simp: script_def)

lemma trace_short: "length (fst (script h w)) \<le> 1"
  using trace_cases [of h w] by auto

subsection \<open>The sample environments\<close>

lemma Get_without_hook: "Get window_without_hook p = Undefined"
  by (simp add: Get_def window_without_hook_def)

lemma Get_with_hook: "Get window_with_hook ''register_implementors'' = Fun 0"
  by (simp add: Get_def window_with_hook_def)

lemma Get_with_number: "Get window_with_number ''register_implementors'' = Num (Finite 1)"
  by (simp add: Get_def window_with_number_def)

subsection \<open>The relation and the function agree\<close>

lemma exec_graph_of: "exec (graph_of h) w r \<longleftrightarrow> r = script h w"
proof
  assume "exec (graph_of h) w r"
  then show "r = script h w"
    by (cases rule: exec.cases)
       (simp_all add: script_falsy script_callable script_not_callable graph_of_def)
next
  assume r: "r = script h w"
  show "exec (graph_of h) w r"
  proof (cases "ToBoolean (Get w ''register_implementors'')")
    case False
    then show ?thesis unfolding r by (simp add: script_falsy exec_store)
  next
    case True
    show ?thesis
    proof (cases "IsCallable (Get w ''register_implementors'')")
      case False
      with True show ?thesis unfolding r by (simp add: script_not_callable exec_not_callable)
    next
      case c: True
      then obtain f where f: "Get w ''register_implementors'' = Fun f"
        by (auto simp: IsCallable_iff)
      have "exec (graph_of h) w ([Invoke f [implementors]], finish (h f [implementors] w))"
        by (rule exec_call [OF True f]) (simp add: graph_of_def)
      then show ?thesis unfolding r by (simp add: script_callable [OF f])
    qed
  qed
qed

lemma functional_graph_of: "functional (graph_of h)"
  by (simp add: functional_def graph_of_def)

subsection \<open>Counting lines\<close>

lemma newlines_append: "newlines (xs @ ys) = newlines xs + newlines ys"
  by (simp add: newlines_def)

lemma length_split_lines: "length (split_lines s) = Suc (newlines s)"
  by (induction s) (auto simp: newlines_def split: list.splits)

lemma impl_newlines:
  "newlines impl_IntermediateBox = 0" "newlines impl_BinaryHeapPlace = 0"
  "newlines impl_FrontPlace = 0" "newlines impl_BackPlace = 0" "newlines impl_PlaceBack = 0"
  unfolding impl_defs newlines_def by simp_all

lemma newlines_source_text: "newlines source_text = 9"
  unfolding source_text_def newlines_append impl_newlines by (simp add: newlines_def)

lemma last_char_source_text: "last source_text = CHR '')''"
  unfolding source_text_def by simp


section \<open>The claims\<close>

text \<open>
  Everywhere below, \<open>h\<close> is any host and \<open>w\<close> any state of \<^verbatim>\<open>window\<close> before the script
  runs; \<open>fst (script h w)\<close> is what the script did and \<open>snd (script h w)\<close> how it ended.
\<close>

subsection \<open>C1: dispatch on the hook\<close>

text \<open>
  C1 as written fails when \<^verbatim>\<open>window.register_implementors\<close> holds a truthy value that is not
  a function, here the number 1: the test of line 4 succeeds, the call of line 5 raises
  \<^verbatim>\<open>TypeError\<close>, and the script has neither called anything nor stored the mapping.
\<close>

theorem truthy_number_neither_effect:
  "ToBoolean (Get window_with_number ''register_implementors'') \<and>
   script host_keeping window_with_number = ([], Raised TypeError window_with_number)"
  by (simp add: script_def Get_with_number)

text \<open>
  C1, amended: when \<^verbatim>\<open>window.register_implementors\<close> is a function, the script calls it
  exactly once with the implementors mapping as the sole argument and stores nothing; when
  it is falsy, the script stores that mapping in \<^verbatim>\<open>window.pending_implementors\<close>, calls
  nothing and completes; when it is truthy and not callable, the script raises
  \<^verbatim>\<open>TypeError\<close> and does neither. A run never does both: it has at most one effect.
\<close>

theorem dispatch_on_hook:
  "(Get w ''register_implementors'' = Fun f \<longrightarrow>
      fst (script h w) = [Invoke f [implementors]]) \<and>
   (\<not> ToBoolean (Get w ''register_implementors'') \<longrightarrow>
      script h w = ([Store ''pending_implementors'' implementors],
                    Completed (Put w ''pending_implementors'' implementors))) \<and>
   (ToBoolean (Get w ''register_implementors'') \<and>
    \<not> IsCallable (Get w ''register_implementors'') \<longrightarrow>
      script h w = ([], Raised TypeError w)) \<and>
   length (fst (script h w)) \<le> 1"
  using trace_short [of h w]
  by (simp add: script_falsy script_callable script_not_callable)

theorem dispatch_on_hook_witness:
  "Get window_with_hook ''register_implementors'' = Fun 0 \<and>
   fst (script host_keeping window_with_hook) = [Invoke 0 [implementors]] \<and>
   \<not> ToBoolean (Get window_without_hook ''register_implementors'') \<and>
   script host_keeping window_without_hook =
     ([Store ''pending_implementors'' implementors],
      Completed (Put window_without_hook ''pending_implementors'' implementors)) \<and>
   ToBoolean (Get window_with_number ''register_implementors'') \<and>
   \<not> IsCallable (Get window_with_number ''register_implementors'') \<and>
   script host_keeping window_with_number = ([], Raised TypeError window_with_number)"
  using dispatch_on_hook [of window_with_hook 0 host_keeping]
    dispatch_on_hook [of window_without_hook 0 host_keeping]
    dispatch_on_hook [of window_with_number 0 host_keeping]
  by (simp add: Get_with_hook Get_without_hook Get_with_number)

subsection \<open>C2: one key, a non-empty sequence of strings\<close>

text \<open>
  C2: the mapping built by lines 1 and 2 has exactly one key, the string \<^verbatim>\<open>biscuit\<close>; its
  keys are unique; and the value under that key is a non-empty ordered sequence of strings.
\<close>

theorem implementors_single_key:
  "own_keys implementors = [''biscuit''] \<and>
   distinct (own_keys implementors) \<and>
   is_string_seq (get_prop implementors ''biscuit'') \<and>
   get_prop implementors ''biscuit'' \<noteq> Arr []"
  by (simp add: implementors_value is_string_map_Str biscuit_nonempty)

subsection \<open>C3: no error path\<close>

text \<open>
  C3 as written fails for a hook that is callable and throws: the script has no handler,
  so the thrown value ends the script.
\<close>

theorem throwing_hook_ends_script:
  "IsCallable (Get window_with_hook ''register_implementors'') \<and>
   snd (script host_throwing window_with_hook) =
     Raised (Thrown (Str ''not ready'')) window_with_hook"
  by (simp add: script_def Get_with_hook host_throwing_def)

text \<open>
  C3, amended: suppose \<^verbatim>\<open>window.register_implementors\<close>, when truthy, is callable. Then the
  script completes normally whenever the call of the hook returns normally; when the hook
  is absent (falsy) the script raises nothing and defers, storing the mapping for later
  pickup; the script never raises the \<^verbatim>\<open>TypeError\<close> of calling a value that is not a
  function; and the script ends with an error exactly when the hook itself throws: the
  error is then the value the hook threw, which the script does not catch, and
  \<^verbatim>\<open>window\<close> is as the hook left it.
\<close>

theorem script_completes:
  assumes "ToBoolean (Get w ''register_implementors'') \<longrightarrow>
           IsCallable (Get w ''register_implementors'')"
  shows "((\<forall>f. Get w ''register_implementors'' = Fun f \<longrightarrow>
              (\<exists>v w'. h f [implementors] w = Returns v w')) \<longrightarrow>
          (\<exists>w'. snd (script h w) = Completed w')) \<and>
         (\<not> ToBoolean (Get w ''register_implementors'') \<longrightarrow>
            script h w = ([Store ''pending_implementors'' implementors],
                          Completed (Put w ''pending_implementors'' implementors))) \<and>
         (\<forall>w'. snd (script h w) \<noteq> Raised TypeError w') \<and>
         (snd (script h w) = Raised e w1 \<longrightarrow>
            (\<exists>f x. Get w ''register_implementors'' = Fun f \<and>
                   h f [implementors] w = Throws x w1 \<and> e = Thrown x)) \<and>
         (Get w ''register_implementors'' = Fun g \<and> h g [implementors] w = Throws y w2 \<longrightarrow>
            snd (script h w) = Raised (Thrown y) w2)"
proof (cases "ToBoolean (Get w ''register_implementors'')")
  case False
  then have "Get w ''register_implementors'' \<noteq> Fun g"
    by auto
  with False show ?thesis by (simp add: script_falsy)
next
  case True
  with assms obtain f where f: "Get w ''register_implementors'' = Fun f"
    by (auto simp: IsCallable_iff)
  have run: "snd (script h w) = finish (h f [implementors] w)"
    by (simp add: script_callable [OF f])
  have 1: "\<exists>w'. snd (script h w) = Completed w'"
    if "\<exists>v w'. h f [implementors] w = Returns v w'"
    using that by (auto simp: run)
  have 3: "snd (script h w) \<noteq> Raised TypeError w'" for w'
    by (cases "h f [implementors] w") (simp_all add: run)
  have 4: "\<exists>f x. Get w ''register_implementors'' = Fun f \<and>
                 h f [implementors] w = Throws x w1 \<and> e = Thrown x"
    if "snd (script h w) = Raised e w1"
    using that f by (cases "h f [implementors] w") (simp_all add: run)
  have 5: "snd (script h w) = Raised (Thrown y) w2"
    if "Get w ''register_implementors'' = Fun g \<and> h g [implementors] w = Throws y w2"
    using that f by (simp add: run)
  show ?thesis using True f 1 3 4 5 by simp
qed

theorem script_completes_witness:
  "IsCallable (Get window_with_hook ''register_implementors'') \<and>
   (\<exists>w'. snd (script host_keeping window_with_hook) = Completed w') \<and>
   \<not> ToBoolean (Get window_without_hook ''register_implementors'') \<and>
   script host_keeping window_without_hook =
     ([Store ''pending_implementors'' implementors],
      Completed (Put window_without_hook ''pending_implementors'' implementors)) \<and>
   host_throwing 0 [implementors] window_with_hook =
     Throws (Str ''not ready'') window_with_hook \<and>
   snd (script host_throwing window_with_hook) =
     Raised (Thrown (Str ''not ready'')) window_with_hook"
proof -
  have A: "ToBoolean (Get window_with_hook ''register_implementors'') \<longrightarrow>
           IsCallable (Get window_with_hook ''register_implementors'')"
    by (simp add: Get_with_hook)
  have B: "ToBoolean (Get window_without_hook ''register_implementors'') \<longrightarrow>
           IsCallable (Get window_without_hook ''register_implementors'')"
    by (simp add: Get_without_hook)
  have T: "host_throwing 0 [implementors] window_with_hook =
             Throws (Str ''not ready'') window_with_hook"
    by (simp add: host_throwing_def)
  have 1: "\<exists>w'. snd (script host_keeping window_with_hook) = Completed w'"
    using script_completes [OF A, where h = host_keeping]
    by (simp add: Get_with_hook host_keeping_def)
  have 2: "script host_keeping window_without_hook =
     ([Store ''pending_implementors'' implementors],
      Completed (Put window_without_hook ''pending_implementors'' implementors))"
    using script_completes [OF B, where h = host_keeping]
    by (simp add: Get_without_hook)
  have 3: "snd (script host_throwing window_with_hook) =
     Raised (Thrown (Str ''not ready'')) window_with_hook"
    using script_completes [OF A, where h = host_throwing and g = 0
        and y = "Str ''not ready''" and ?w2.0 = window_with_hook]
    by (simp only: Get_with_hook T simp_thms)
  show ?thesis
    by (simp only: 1 2 3 T Get_with_hook Get_without_hook IsCallable.simps ToBoolean.simps
        simp_thms)
qed

subsection \<open>C4: the mapping is handed off as constructed\<close>

text \<open>
  C4: the script does nothing to the mapping between building it and handing it off, so
  whatever a run hands off, as the sole argument of the hook call or as the value stored,
  is the value built by lines 1 and 2: one key \<^verbatim>\<open>biscuit\<close> with the five strings in the
  order of the file. In the storing branch that value is what
  \<^verbatim>\<open>window.pending_implementors\<close> holds when the script has completed.
\<close>

theorem handed_off_as_constructed:
  "(e \<in> set (fst (script h w)) \<longrightarrow>
      payload e =
        [Obj [(''biscuit'',
               Arr [Str impl_IntermediateBox, Str impl_BinaryHeapPlace, Str impl_FrontPlace,
                    Str impl_BackPlace, Str impl_PlaceBack])]]) \<and>
   (\<not> ToBoolean (Get w ''register_implementors'') \<longrightarrow>
      (\<exists>w'. snd (script h w) = Completed w' \<and>
        Get w' ''pending_implementors'' =
          Obj [(''biscuit'',
                Arr [Str impl_IntermediateBox, Str impl_BinaryHeapPlace, Str impl_FrontPlace,
                     Str impl_BackPlace, Str impl_PlaceBack])]))"
proof (intro conjI impI)
  assume "e \<in> set (fst (script h w))"
  with trace_cases [of h w] have "payload e = [implementors]" by auto
  then show "payload e =
        [Obj [(''biscuit'',
               Arr [Str impl_IntermediateBox, Str impl_BinaryHeapPlace, Str impl_FrontPlace,
                    Str impl_BackPlace, Str impl_PlaceBack])]]"
    by (simp only: implementors_literal)
next
  assume "\<not> ToBoolean (Get w ''register_implementors'')"
  then have "snd (script h w) = Completed (Put w ''pending_implementors'' implementors)"
    by (simp add: script_falsy)
  moreover
  have "Get (Put w ''pending_implementors'' implementors) ''pending_implementors'' = implementors"
    by (simp add: Get_def Put_def)
  ultimately show "\<exists>w'. snd (script h w) = Completed w' \<and>
        Get w' ''pending_implementors'' =
          Obj [(''biscuit'',
                Arr [Str impl_IntermediateBox, Str impl_BinaryHeapPlace, Str impl_FrontPlace,
                     Str impl_BackPlace, Str impl_PlaceBack])]"
    using implementors_literal by metis
qed

theorem handed_off_as_constructed_witness:
  "Invoke 0 [implementors] \<in> set (fst (script host_keeping window_with_hook)) \<and>
   payload (Invoke 0 [implementors]) =
        [Obj [(''biscuit'',
               Arr [Str impl_IntermediateBox, Str impl_BinaryHeapPlace, Str impl_FrontPlace,
                    Str impl_BackPlace, Str impl_PlaceBack])]] \<and>
   \<not> ToBoolean (Get window_without_hook ''register_implementors'') \<and>
   (\<exists>w'. snd (script host_keeping window_without_hook) = Completed w' \<and>
        Get w' ''pending_implementors'' =
          Obj [(''biscuit'',
                Arr [Str impl_IntermediateBox, Str impl_BinaryHeapPlace, Str impl_FrontPlace,
                     Str impl_BackPlace, Str impl_PlaceBack])])"
proof -
  have A: "Invoke 0 [implementors] \<in> set (fst (script host_keeping window_with_hook))"
    by (simp add: script_callable [OF Get_with_hook])
  have B: "\<not> ToBoolean (Get window_without_hook ''register_implementors'')"
    by (simp add: Get_without_hook)
  from handed_off_as_constructed [of "Invoke 0 [implementors]" host_keeping window_with_hook] A
    handed_off_as_constructed [of "Invoke 0 [implementors]" host_keeping window_without_hook] B
  show ?thesis by blast
qed

subsection \<open>C5: what the hook is given\<close>

text \<open>
  C5: every call the script makes is a call of the value of
  \<^verbatim>\<open>window.register_implementors\<close>, and its argument list is the implementors mapping alone,
  which is a mapping from string keys to ordered sequences of strings.
\<close>

theorem hook_argument_contract:
  "Invoke f args \<in> set (fst (script h w)) \<Longrightarrow>
   Get w ''register_implementors'' = Fun f \<and> args = [implementors] \<and> is_mapping implementors"
  using trace_cases [of h w] by (auto simp: implementors_is_mapping)

theorem hook_argument_contract_witness:
  "Invoke 0 [implementors] \<in> set (fst (script host_keeping window_with_hook)) \<and>
   Get window_with_hook ''register_implementors'' = Fun 0 \<and> is_mapping implementors"
proof -
  have A: "Invoke 0 [implementors] \<in> set (fst (script host_keeping window_with_hook))"
    by (simp add: script_callable [OF Get_with_hook])
  from hook_argument_contract [OF A] A show ?thesis by simp
qed

subsection \<open>C6: the length of the file\<close>

text \<open>
  C6 as written fails: the file does not have 11 lines, neither counting the pieces
  between newline characters nor counting the newline characters.
\<close>

theorem source_not_eleven_lines:
  "length (split_lines source_text) \<noteq> 11 \<and> newlines source_text \<noteq> 11"
  by (simp add: length_split_lines newlines_source_text)

text \<open>
  C6, amended: the single source file is 10 lines long: it holds 9 newline characters,
  and its last line, \<^verbatim>\<open>})()\<close>, does not end in one.
\<close>

theorem source_ten_lines:
  "length (split_lines source_text) = 10 \<and> newlines source_text = 9 \<and>
   last source_text = CHR '')''"
  by (simp add: length_split_lines newlines_source_text last_char_source_text)


subsection \<open>C7: frame\<close>

text \<open>
  C7: the only property of \<^verbatim>\<open>window\<close> the script ever writes is
  \<^verbatim>\<open>pending_implementors\<close>, and it writes it only when \<^verbatim>\<open>window.register_implementors\<close> is
  falsy. In that branch every other property, \<^verbatim>\<open>register_implementors\<close> among them, is
  in the final state what it was. In the other branch the script writes nothing: the hook
  is called on the state the script found, and the state in which the run ends is the
  state the hook left, whether the hook returned or threw, so every property then holds
  what the hook left in it; when the value is not callable the state is left as found.
\<close>

theorem script_frame:
  "(Store p v \<in> set (fst (script h w)) \<longrightarrow>
      p = ''pending_implementors'' \<and> \<not> ToBoolean (Get w ''register_implementors'')) \<and>
   (\<not> ToBoolean (Get w ''register_implementors'') \<and> q \<noteq> ''pending_implementors'' \<longrightarrow>
      (\<exists>w'. snd (script h w) = Completed w' \<and> w' q = w q)) \<and>
   (Get w ''register_implementors'' = Fun f \<and> h f [implementors] w = Returns x w1 \<longrightarrow>
      script h w = ([Invoke f [implementors]], Completed w1)) \<and>
   (Get w ''register_implementors'' = Fun f \<and> h f [implementors] w = Throws y w2 \<longrightarrow>
      script h w = ([Invoke f [implementors]], Raised (Thrown y) w2)) \<and>
   (Get w ''register_implementors'' = Fun f \<and> h f [implementors] w = Diverges \<longrightarrow>
      script h w = ([Invoke f [implementors]], NoReturn)) \<and>
   (ToBoolean (Get w ''register_implementors'') \<and>
    \<not> IsCallable (Get w ''register_implementors'') \<longrightarrow>
      script h w = ([], Raised TypeError w))"
proof (intro conjI impI)
  assume "Store p v \<in> set (fst (script h w))"
  with trace_cases [of h w]
  show "p = ''pending_implementors''" and "\<not> ToBoolean (Get w ''register_implementors'')"
    by auto
next
  assume "\<not> ToBoolean (Get w ''register_implementors'') \<and> q \<noteq> ''pending_implementors''"
  then show "\<exists>w'. snd (script h w) = Completed w' \<and> w' q = w q"
    by (simp add: script_falsy Put_def)
next
  assume "Get w ''register_implementors'' = Fun f \<and> h f [implementors] w = Returns x w1"
  then show "script h w = ([Invoke f [implementors]], Completed w1)"
    by (simp add: script_callable)
next
  assume "Get w ''register_implementors'' = Fun f \<and> h f [implementors] w = Throws y w2"
  then show "script h w = ([Invoke f [implementors]], Raised (Thrown y) w2)"
    by (simp add: script_callable)
next
  assume "Get w ''register_implementors'' = Fun f \<and> h f [implementors] w = Diverges"
  then show "script h w = ([Invoke f [implementors]], NoReturn)"
    by (simp add: script_callable)
next
  assume "ToBoolean (Get w ''register_implementors'') \<and>
          \<not> IsCallable (Get w ''register_implementors'')"
  then show "script h w = ([], Raised TypeError w)"
    by (simp add: script_not_callable)
qed

theorem script_frame_witness:
  "Store ''pending_implementors'' implementors
     \<in> set (fst (script host_keeping window_without_hook)) \<and>
   \<not> ToBoolean (Get window_without_hook ''register_implementors'') \<and>
   (\<exists>w'. snd (script host_keeping window_without_hook) = Completed w' \<and>
         w' ''register_implementors'' = window_without_hook ''register_implementors'') \<and>
   Get window_with_hook ''register_implementors'' = Fun 0 \<and>
   host_keeping 0 [implementors] window_with_hook =
     Returns Undefined (window_with_hook(''registered'' \<mapsto> Arr [implementors])) \<and>
   script host_keeping window_with_hook =
     ([Invoke 0 [implementors]],
      Completed (window_with_hook(''registered'' \<mapsto> Arr [implementors]))) \<and>
   (window_with_hook(''registered'' \<mapsto> Arr [implementors])) ''register_implementors'' =
     Some (Fun 0) \<and>
   (window_with_hook(''registered'' \<mapsto> Arr [implementors])) ''pending_implementors'' = None \<and>
   host_throwing 0 [implementors] window_with_hook =
     Throws (Str ''not ready'') window_with_hook \<and>
   script host_throwing window_with_hook =
     ([Invoke 0 [implementors]], Raised (Thrown (Str ''not ready'')) window_with_hook) \<and>
   host_hanging 0 [implementors] window_with_hook = Diverges \<and>
   script host_hanging window_with_hook = ([Invoke 0 [implementors]], NoReturn) \<and>
   ToBoolean (Get window_with_number ''register_implementors'') \<and>
   \<not> IsCallable (Get window_with_number ''register_implementors'') \<and>
   script host_throwing window_with_number = ([], Raised TypeError window_with_number)"
proof -
  have A: "Store ''pending_implementors'' implementors
             \<in> set (fst (script host_keeping window_without_hook))"
    by (simp add: script_falsy Get_without_hook)
  have B: "\<not> ToBoolean (Get window_without_hook ''register_implementors'')"
    by (simp add: Get_without_hook)
  have C: "ToBoolean (Get window_with_number ''register_implementors'')"
    "\<not> IsCallable (Get window_with_number ''register_implementors'')"
    by (simp_all add: Get_with_number)
  have D: "''register_implementors'' \<noteq> ''pending_implementors''" by simp
  have K: "host_keeping 0 [implementors] window_with_hook =
     Returns Undefined (window_with_hook(''registered'' \<mapsto> Arr [implementors]))"
    by (simp add: host_keeping_def)
  have T: "host_throwing 0 [implementors] window_with_hook =
     Throws (Str ''not ready'') window_with_hook"
    by (simp add: host_throwing_def)
  have H: "host_hanging 0 [implementors] window_with_hook = Diverges"
    by (simp add: host_hanging_def)
  have P: "(window_with_hook(''registered'' \<mapsto> Arr [implementors])) ''register_implementors'' =
     Some (Fun 0)"
    "(window_with_hook(''registered'' \<mapsto> Arr [implementors])) ''pending_implementors'' = None"
    by (simp_all add: window_with_hook_def)
  have 1: "\<exists>w'. snd (script host_keeping window_without_hook) = Completed w' \<and>
         w' ''register_implementors'' = window_without_hook ''register_implementors''"
    using script_frame [where w = window_without_hook and h = host_keeping
        and q = "''register_implementors''"]
    by (simp only: B D simp_thms)
  have 2: "script host_keeping window_with_hook =
     ([Invoke 0 [implementors]],
      Completed (window_with_hook(''registered'' \<mapsto> Arr [implementors])))"
    using script_frame [where w = window_with_hook and h = host_keeping and f = 0
        and x = Undefined and ?w1.0 = "window_with_hook(''registered'' \<mapsto> Arr [implementors])"]
    by (simp only: Get_with_hook K simp_thms)
  have 3: "script host_throwing window_with_hook =
     ([Invoke 0 [implementors]], Raised (Thrown (Str ''not ready'')) window_with_hook)"
    using script_frame [where w = window_with_hook and h = host_throwing and f = 0
        and y = "Str ''not ready''" and ?w2.0 = window_with_hook]
    by (simp only: Get_with_hook T simp_thms)
  have 4: "script host_hanging window_with_hook = ([Invoke 0 [implementors]], NoReturn)"
    using script_frame [where w = window_with_hook and h = host_hanging and f = 0]
    by (simp only: Get_with_hook H simp_thms)
  have 5: "script host_throwing window_with_number = ([], Raised TypeError window_with_number)"
    using script_frame [where w = window_with_number and h = host_throwing]
    by (simp only: C simp_thms)
  show ?thesis
    by (simp only: A B C K T H P 1 2 3 4 5 Get_with_hook simp_thms)
qed

subsection \<open>C8: determinism\<close>

text \<open>
  C8: if every function of the host answers a call in one way only, then two runs of the
  script from equal states of \<^verbatim>\<open>window\<close> are equal: the same calls with the same
  arguments, the same writes, and the same ending with the same final state.
\<close>

theorem exec_deterministic:
  assumes "functional H" and "w1 = w2" and "exec H w1 r1" and "exec H w2 r2"
  shows "r1 = r2"
  using assms(3)
proof (cases rule: exec.cases)
  case exec_store
  with assms(2,4) show ?thesis
    by (auto elim!: exec.cases)
next
  case (exec_call f r)
  from assms(4) exec_call(2,3,4) assms(2) show ?thesis
  proof (cases rule: exec.cases)
    case (exec_call f' r')
    with \<open>Get w1 ''register_implementors'' = Fun f\<close> assms(2) have "f' = f" by simp
    with exec_call \<open>H f [implementors] w1 r\<close> assms(1,2) have "r' = r"
      unfolding functional_def by blast
    with exec_call \<open>f' = f\<close> \<open>r1 = _\<close> show ?thesis by simp
  qed (use exec_call assms(2) in auto)
next
  case exec_not_callable
  with assms(2,4) show ?thesis
    by (auto elim!: exec.cases)
qed

theorem exec_deterministic_witness:
  "functional (graph_of host_keeping) \<and>
   exec (graph_of host_keeping) window_with_hook (script host_keeping window_with_hook) \<and>
   exec (graph_of host_keeping) window_with_hook
     ([Invoke 0 [implementors]],
      Completed (window_with_hook(''registered'' \<mapsto> Arr [implementors]))) \<and>
   script host_keeping window_with_hook =
     ([Invoke 0 [implementors]],
      Completed (window_with_hook(''registered'' \<mapsto> Arr [implementors])))"
proof -
  have F: "functional (graph_of host_keeping)"
    by (rule functional_graph_of)
  have A: "exec (graph_of host_keeping) window_with_hook (script host_keeping window_with_hook)"
    by (simp add: exec_graph_of)
  have "exec (graph_of host_keeping) window_with_hook
     ([Invoke 0 [implementors]], finish (host_keeping 0 [implementors] window_with_hook))"
    by (rule exec_call) (simp_all add: Get_with_hook graph_of_def)
  then have B: "exec (graph_of host_keeping) window_with_hook
     ([Invoke 0 [implementors]],
      Completed (window_with_hook(''registered'' \<mapsto> Arr [implementors])))"
    by (simp add: host_keeping_def)
  from exec_deterministic [OF F refl A B] F A B show ?thesis by simp
qed

subsection \<open>C9: the five entries\<close>

text \<open>
  C9: the sequence stored under the key \<^verbatim>\<open>biscuit\<close> has exactly five elements, and every
  one of them is a non-empty string that contains the text \<^verbatim>\<open>trait.Place.html\<close>.
\<close>

theorem biscuit_entries:
  "get_prop implementors ''biscuit'' = Arr (map Str biscuit) \<and>
   length biscuit = 5 \<and>
   list_all (\<lambda>s. s \<noteq> [] \<and> sublist ''trait.Place.html'' s) biscuit"
proof -
  have "list_all (\<lambda>s. s \<noteq> [] \<and> sublist ''trait.Place.html'' s) biscuit"
    unfolding biscuit_def impl_defs by code_simp
  then show ?thesis
    by (simp add: implementors_value) (simp add: biscuit_def)
qed

end
